theory Spec2Isabelle
  imports Complex_Main "HOL-Library.Word"
begin

section \<open>Error values\<close>

type_synonym bytes = string

text \<open>
  Modelled from the spec: package \<^verbatim>\<open>errors\<close> (the interface \<^verbatim>\<open>ProxyError\<close>, the
  constructor \<^verbatim>\<open>FromStatus\<close>) is not among the sources. Per section 4.5 a status-mapped
  error wraps a numeric HTTP status and carries no further payload by default.
\<close>

datatype proxy_error = ProxyError (GetStatusCode: int) (Payload: "bytes option")

text \<open>
  Modelled from the spec: \<^verbatim>\<open>errors.FromStatus\<close> is not among the sources; it builds the
  status-mapped error of a status, with no payload.
\<close>

definition FromStatus :: "int \<Rightarrow> proxy_error" where
  "FromStatus code = ProxyError code None"

text \<open>
  A non-nil Go \<^verbatim>\<open>error\<close> value, told apart by its dynamic type, which is what the type
  assertions and type switches of the sources inspect: a \<^verbatim>\<open>net.Error\<close> (with the result
  of its \<^verbatim>\<open>Timeout()\<close>), a \<^verbatim>\<open>*netutils.MaxSizeReachedError\<close>, a value implementing
  \<^verbatim>\<open>errors.ProxyError\<close>, a \<^verbatim>\<open>*command.RetryError\<close> (with its field \<^verbatim>\<open>Seconds\<close>), or
  any other error (tagged by a text that tells such values apart). The nil error is
  \<open>None\<close> of \<open>go_error option\<close>.
\<close>

datatype go_error =
    NetError bool
  | MaxSizeReachedError
  | ProxyErr proxy_error
  | RetryError (Seconds: int)
  | OtherError string

definition StatusBadRequest :: int where "StatusBadRequest = 400"
definition StatusRequestTimeout :: int where "StatusRequestTimeout = 408"
definition StatusRequestEntityTooLarge :: int where "StatusRequestEntityTooLarge = 413"
definition StatusInternalServerError :: int where "StatusInternalServerError = 500"
definition StatusBadGateway :: int where "StatusBadGateway = 502"

section \<open>Requests, responses and the response writer\<close>

type_synonym header = "string \<rightharpoonup> string list"

text \<open>
  The inbound \<^verbatim>\<open>*http.Request\<close>; \<open>rBody\<close> holds the bytes of \<^verbatim>\<open>r.Body\<close> not yet read (the
  body of a request the server hands to a handler is never nil).
\<close>

record http_request =
  rMethod :: string
  rURL :: string
  rBody :: bytes

text \<open>The \<^verbatim>\<open>*http.Response\<close> a location returns; its \<^verbatim>\<open>Body\<close> is nil, or delivers these bytes.\<close>

record http_response =
  StatusCode :: int
  Header :: header
  Body :: "bytes option"

text \<open>
  The request handed to the router and the location
  (\<^verbatim>\<open>request.NewBaseRequest(r, id, nil)\<close>, later \<^verbatim>\<open>req.Body = body\<close>).
\<close>

record request =
  HttpReq :: http_request
  Id :: "64 word"
  ReqBody :: "bytes option"

text \<open>
  How a call ends: it returns a value, or it panics. The panics that are modelled
  are that of \<^verbatim>\<open>WriteHeader\<close> on a status code that is no three-digit number, and the
  nil dereference of a copy from a nil body.
\<close>

datatype panic = InvalidWriteHeaderCode int | NilPointerDereference

datatype 'a result = Returns 'a | Panics panic

text \<open>
  The \<^verbatim>\<open>http.ResponseWriter\<close> the server hands to the handler (the \<^verbatim>\<open>response\<close> of
  \<^verbatim>\<open>net/http\<close>): its header map, the informational heads sent so far, the status of the
  final head once that is written (\<^verbatim>\<open>wroteHeader\<close>, \<^verbatim>\<open>status\<close>), the body bytes it has
  sent, the method of the request it answers, and whether it drops the body bytes it
  is handed for a reason that is not modelled (a lost connection, a declared
  \<^verbatim>\<open>Content-Length\<close> the body would exceed).
\<close>

record response_writer =
  wHeader :: header
  wInformational :: "int list"
  wStatus :: "int option"
  wBody :: bytes
  wMethod :: string
  wDrops :: bool

definition HeaderSet :: "response_writer \<Rightarrow> string \<Rightarrow> string \<Rightarrow> response_writer" where
  "HeaderSet rw k v = rw\<lparr>wHeader := (wHeader rw)(k \<mapsto> [v])\<rparr>"

text \<open>The statuses 100 to 199 other than 101 are sent as informational heads.\<close>

definition informational :: "int \<Rightarrow> bool" where
  "informational code = (100 \<le> code \<and> code \<le> 199 \<and> code \<noteq> 101)"

text \<open>\<^verbatim>\<open>bodyAllowedForStatus\<close> of \<^verbatim>\<open>net/http\<close>: no body goes with 1xx, 204 and 304.\<close>

definition bodyAllowedForStatus :: "int \<Rightarrow> bool" where
  "bodyAllowedForStatus status =
     (\<not> (100 \<le> status \<and> status \<le> 199) \<and> status \<noteq> 204 \<and> status \<noteq> 304)"

text \<open>
  \<^verbatim>\<open>WriteHeader\<close>: once the final head is written a further call is ignored; a code
  outside 100..999 panics; an informational code is sent and leaves the final head to
  come; any other code is the status of the final head.
\<close>

definition WriteHeader :: "response_writer \<Rightarrow> int \<Rightarrow> response_writer result" where
  "WriteHeader rw code =
     (if wStatus rw \<noteq> None then Returns rw
      else if code < 100 \<or> 999 < code then Panics (InvalidWriteHeaderCode code)
      else if informational code
        then Returns (rw\<lparr>wInformational := wInformational rw @ [code]\<rparr>)
      else Returns (rw\<lparr>wStatus := Some code\<rparr>))"

text \<open>
  \<^verbatim>\<open>Write\<close>: when no final head is written yet, the head with status 200 is written
  first; the bytes are then sent, unless there are none, the status admits no body,
  the request is a \<^verbatim>\<open>HEAD\<close> request, or the writer drops them. Its result is not looked
  at by the proxy.
\<close>

definition Write :: "response_writer \<Rightarrow> bytes \<Rightarrow> response_writer" where
  "Write rw bs =
     (let status = (case wStatus rw of None \<Rightarrow> 200 | Some s \<Rightarrow> s);
          rw1 = rw\<lparr>wStatus := Some status\<rparr>
      in if bs = [] \<or> \<not> bodyAllowedForStatus status \<or> wMethod rw1 = ''HEAD'' \<or> wDrops rw1
         then rw1
         else rw1\<lparr>wBody := wBody rw1 @ bs\<rparr>)"

text \<open>\<^verbatim>\<open>io.Copy(w, body)\<close>: an empty body is read to its end without any \<^verbatim>\<open>Write\<close>.\<close>

definition ioCopy :: "response_writer \<Rightarrow> bytes \<Rightarrow> response_writer" where
  "ioCopy rw bs = (if bs = [] then rw else Write rw bs)"

text \<open>
  Modelled from the spec: \<^verbatim>\<open>netutils.CopyHeaders\<close> is not among the sources. Per
  section 4.1 the response headers are copied verbatim: every key of the source header
  reaches the destination with the source's values.
\<close>

definition CopyHeaders :: "header \<Rightarrow> header \<Rightarrow> header" where
  "CopyHeaders dst src = dst ++ src"

section \<open>The proxy\<close>

text \<open>
  \<^verbatim>\<open>request.BodyReader\<close>: \<^verbatim>\<open>ReadBody\<close> is given the unread bytes of the inbound body and
  returns the buffered body (or nil), the error (or nil), and the bytes it left unread.
\<close>

type_synonym body_reader = "bytes \<Rightarrow> bytes option \<times> go_error option \<times> bytes"

text \<open>
  A location: its \<^verbatim>\<open>RoundTrip\<close>, and its \<^verbatim>\<open>ReadBody\<close> when it implements
  \<^verbatim>\<open>request.BodyReader\<close> (the type assertion of \<^verbatim>\<open>proxyRequest\<close>).
\<close>

record location =
  RoundTrip :: "request \<Rightarrow> http_response option \<times> go_error option"
  BodyReader :: "body_reader option"

record Options =
  ErrorFormatter :: "proxy_error \<Rightarrow> int \<times> bytes \<times> string"

record Proxy =
  router :: "request \<Rightarrow> location option \<times> go_error option"
  options :: Options
  lastRequestId :: "64 word"

text \<open>The calls a request makes on its collaborators, in order.\<close>

datatype call =
    Call_Route
  | Call_ReadBody
  | Call_RoundTrip
  | Call_Discard
  | Call_CloseBody
  | Call_CloseResponseBody

text \<open>What one call of \<^verbatim>\<open>ServeHTTP(w, r)\<close> can change besides the proxy's counter.\<close>

record conn =
  writer :: response_writer
  httpReq :: http_request
  calls :: "call list"

text \<open>
  \<^verbatim>\<open>proxyRequest\<close>. The default reader \<^verbatim>\<open>&request.BaseBodyReader{}\<close> is not among the
  sources and is the parameter \<open>BaseBodyReader\<close>. The deferred \<^verbatim>\<open>Close\<close> calls run when
  the function returns or panics, last deferred first; the \<^verbatim>\<open>Close\<close> of the response
  body is deferred after the copy only, so a panic of \<^verbatim>\<open>WriteHeader\<close> or of the copy
  leaves it out. Logging is left out.
\<close>

definition proxyRequest ::
  "body_reader \<Rightarrow> Proxy \<Rightarrow> conn \<Rightarrow> go_error option result \<times> Proxy \<times> conn" where
  "proxyRequest BaseBodyReader p c =
     (let p1 = p\<lparr>lastRequestId := lastRequestId p + 1\<rparr>;
          req = \<lparr>HttpReq = httpReq c, Id = lastRequestId p1, ReqBody = None\<rparr>;
          c1 = c\<lparr>calls := calls c @ [Call_Route]\<rparr>
      in case router p1 req of (loc, err) \<Rightarrow>
        (case err of
           Some e \<Rightarrow> (Returns (Some e), p1, c1)
         | None \<Rightarrow>
        (case loc of
           None \<Rightarrow> (Returns (Some (ProxyErr (FromStatus StatusBadGateway))), p1, c1)
         | Some location \<Rightarrow>
        (let reader = (case BodyReader location of
                         Some customReader \<Rightarrow> customReader
                       | None \<Rightarrow> BaseBodyReader)
         in case reader (rBody (httpReq c1)) of (body, err, rest) \<Rightarrow>
        (let c2 = c1\<lparr>httpReq := (httpReq c1)\<lparr>rBody := rest\<rparr>,
                     calls := calls c1 @ [Call_ReadBody]\<rparr>
         in if err \<noteq> None \<or> body = None then
              (case err of
                 Some (NetError True) \<Rightarrow>
                   (Returns (Some (ProxyErr (FromStatus StatusRequestTimeout))), p1, c2)
               | Some MaxSizeReachedError \<Rightarrow>
                   (Returns (Some (ProxyErr (FromStatus StatusRequestEntityTooLarge))), p1, c2)
               | _ \<Rightarrow>
                   (Returns (Some (ProxyErr (FromStatus StatusBadRequest))), p1, c2))
            else
        (let b = the body;
             c3 = c2\<lparr>httpReq := (httpReq c2)\<lparr>rBody := b\<rparr>\<rparr>;
             req1 = req\<lparr>HttpReq := httpReq c3, ReqBody := Some b\<rparr>;
             c4 = c3\<lparr>calls := calls c3 @ [Call_RoundTrip]\<rparr>
         in case RoundTrip location req1 of (response, err) \<Rightarrow>
        (case response of
           Some resp \<Rightarrow>
             (let w1 = (writer c4)\<lparr>wHeader := CopyHeaders (wHeader (writer c4)) (Header resp)\<rparr>
              in case WriteHeader w1 (StatusCode resp) of
                   Panics v \<Rightarrow>
                     (Panics v, p1, c4\<lparr>writer := w1, calls := calls c4 @ [Call_CloseBody]\<rparr>)
                 | Returns w2 \<Rightarrow>
                     (case Body resp of
                        None \<Rightarrow>
                          (Panics NilPointerDereference, p1,
                           c4\<lparr>writer := w2, calls := calls c4 @ [Call_CloseBody]\<rparr>)
                      | Some bs \<Rightarrow>
                          (Returns None, p1,
                           c4\<lparr>writer := ioCopy w2 bs,
                              calls := calls c4 @ [Call_CloseResponseBody, Call_CloseBody]\<rparr>)))
         | None \<Rightarrow> (Returns err, p1, c4\<lparr>calls := calls c4 @ [Call_CloseBody]\<rparr>))))))))"

text \<open>\<^verbatim>\<open>replyError\<close>: \<^verbatim>\<open>io.Copy(ioutil.Discard, req.Body)\<close> reads the body to its end.\<close>

definition replyError :: "Proxy \<Rightarrow> go_error \<Rightarrow> conn \<Rightarrow> unit result \<times> conn" where
  "replyError p err c =
     (let proxyError = (case err of
                          ProxyErr pe \<Rightarrow> pe
                        | _ \<Rightarrow> FromStatus StatusBadGateway);
          c1 = c\<lparr>httpReq := (httpReq c)\<lparr>rBody := []\<rparr>, calls := calls c @ [Call_Discard]\<rparr>
      in case ErrorFormatter (options p) proxyError of (statusCode, body, contentType) \<Rightarrow>
        (let w1 = HeaderSet (writer c1) ''Content-Type'' contentType
         in case WriteHeader w1 statusCode of
              Panics v \<Rightarrow> (Panics v, c1\<lparr>writer := w1\<rparr>)
            | Returns w2 \<Rightarrow> (Returns (), c1\<lparr>writer := Write w2 body\<rparr>)))"

definition ServeHTTP :: "body_reader \<Rightarrow> Proxy \<Rightarrow> conn \<Rightarrow> unit result \<times> Proxy \<times> conn" where
  "ServeHTTP BaseBodyReader p c =
     (case proxyRequest BaseBodyReader p c of
        (Panics v, p1, c1) \<Rightarrow> (Panics v, p1, c1)
      | (Returns (Some err), p1, c1) \<Rightarrow>
          (case replyError p1 err c1 of (r, c2) \<Rightarrow> (r, p1, c2))
      | (Returns None, p1, c1) \<Rightarrow> (Returns (), p1, c1))"

section \<open>The error mapping of the control layer\<close>

text \<open>
  A \<^verbatim>\<open>float64\<close>: a finite value is the rational number it denotes; the others are the
  infinities and NaN.
\<close>

datatype float64 = Fin rat | PosInf | NegInf | NaN

text \<open>
  A value held in an \<^verbatim>\<open>interface{}\<close>: nil, a \<^verbatim>\<open>bool\<close>, an \<^verbatim>\<open>int\<close>, a \<^verbatim>\<open>float64\<close>, a
  \<^verbatim>\<open>string\<close>, a slice, a \<^verbatim>\<open>map[string]interface{}\<close>, or a value of any other type
  (a function, a channel, ...), tagged by a text.
\<close>

datatype go_value =
    VNil
  | VBool bool
  | VInt int
  | VFloat float64
  | VString string
  | VList "go_value list"
  | VMap "string \<Rightarrow> go_value option"
  | VOther string

text \<open>The struct \<^verbatim>\<open>netutils.HttpError{StatusCode, Status, Body}\<close>.\<close>

datatype http_error =
  HttpError (HttpError_StatusCode: int) (HttpError_Status: string) (HttpError_Body: bytes)

text \<open>
  The conversion \<^verbatim>\<open>int(f)\<close> with a 64-bit \<^verbatim>\<open>int\<close>: the fraction is dropped (truncation
  towards zero). Where the result does not fit, Go leaves the value to the
  implementation; amd64 yields the least \<^verbatim>\<open>int\<close>, which is what is written out here.
\<close>

definition int_of_float64 :: "float64 \<Rightarrow> int" where
  "int_of_float64 f =
     (case f of
        Fin q \<Rightarrow>
          (let t = (if 0 \<le> q then \<lfloor>q\<rfloor> else \<lceil>q\<rceil>)
           in if - (2 ^ 63) \<le> t \<and> t < 2 ^ 63 then t else - (2 ^ 63))
      | _ \<Rightarrow> - (2 ^ 63))"

text \<open>
  The conversion \<^verbatim>\<open>float64(i)\<close>. It is applied to \<^verbatim>\<open>int(codeF)\<close> only, which is either
  the integer \<^verbatim>\<open>codeF\<close> itself, or the integer part of a \<^verbatim>\<open>codeF\<close> with a fraction
  (below \<open>2 ^ 52\<close> in magnitude), or the least \<^verbatim>\<open>int\<close>: all are converted exactly.
\<close>

definition float64_of_int :: "int \<Rightarrow> float64" where
  "float64_of_int i = Fin (of_int i)"

text \<open>
  \<^verbatim>\<open>errorToJs\<close>. The numerals \<^verbatim>\<open>429\<close> and \<^verbatim>\<open>http.StatusInternalServerError\<close> are stored as
  Go \<^verbatim>\<open>int\<close>s. \<^verbatim>\<open>http.StatusText\<close> (standard library) and the method \<^verbatim>\<open>Error()\<close> of the
  error types (packages not among the sources) are parameters.
\<close>

definition errorToJs ::
  "(int \<Rightarrow> string) \<Rightarrow> (go_error \<Rightarrow> string) \<Rightarrow> go_error \<Rightarrow> (string \<rightharpoonup> go_value)" where
  "errorToJs StatusText Error inErr =
     (case inErr of
        RetryError seconds \<Rightarrow>
          [''type'' \<mapsto> VString ''retry'',
           ''retry-seconds'' \<mapsto> VInt seconds,
           ''code'' \<mapsto> VInt 429,
           ''message'' \<mapsto> VString ''Too Many Requests'',
           ''body'' \<mapsto> VString ''Too Many Requests'']
      | _ \<Rightarrow>
          [''type'' \<mapsto> VString ''internal'',
           ''code'' \<mapsto> VInt StatusInternalServerError,
           ''body'' \<mapsto> VString (StatusText StatusInternalServerError),
           ''message'' \<mapsto> VString (Error inErr)])"

text \<open>
  \<^verbatim>\<open>errorFromDict\<close>; an error is the text given to \<^verbatim>\<open>fmt.Errorf\<close>. \<^verbatim>\<open>json.Marshal\<close>
  (standard library) is the parameter \<open>Marshal\<close>, returning the bytes or the text of
  its error.
\<close>

definition errorFromDict ::
  "(int \<Rightarrow> string) \<Rightarrow> (go_value \<Rightarrow> string + bytes) \<Rightarrow> (string \<rightharpoonup> go_value)
     \<Rightarrow> string + http_error" where
  "errorFromDict StatusText Marshal inp =
     (case inp ''code'' of
        None \<Rightarrow> Inl ''Expected 'code' parameter''
      | Some codeI \<Rightarrow>
     (case codeI of
        VFloat codeF \<Rightarrow>
          if codeF \<noteq> float64_of_int (int_of_float64 codeF)
          then Inl ''Parameter 'code' should be integer''
          else
     (case (case inp ''message'' of
              None \<Rightarrow> Inr (StatusText (int_of_float64 codeF))
            | Some messageI \<Rightarrow>
                (case messageI of
                   VString message \<Rightarrow> Inr message
                 | _ \<Rightarrow> Inl ''Parameter 'message' should be a string'')) of
        Inl e \<Rightarrow> Inl e
      | Inr message \<Rightarrow>
     (case inp ''body'' of
        None \<Rightarrow> Inl ''Expected 'body' parameter''
      | Some bodyI \<Rightarrow>
     (case Marshal bodyI of
        Inl err \<Rightarrow> Inl (''Failed to serialize body to json: '' @ err)
      | Inr bodyBytes \<Rightarrow> Inr (HttpError (int_of_float64 codeF) message bodyBytes))))
      | _ \<Rightarrow> Inl ''Parameter 'code' should be integer''))"

definition errorFromJs ::
  "(int \<Rightarrow> string) \<Rightarrow> (go_value \<Rightarrow> string + bytes) \<Rightarrow> go_value \<Rightarrow> string + http_error" where
  "errorFromJs StatusText Marshal inErr =
     (case inErr of
        VMap err \<Rightarrow> errorFromDict StatusText Marshal err
      | _ \<Rightarrow> Inl ''Unsupported error type'')"

section \<open>One attempt of a location\<close>

text \<open>
  Modelled from the spec: the round trip of a location (\<^verbatim>\<open>HttpLocation.RoundTrip\<close>) is
  not among the sources, only its test is. Sections 4.3 and 4.4 give one attempt:
  the observers' \<^verbatim>\<open>OnRequest\<close>; the middlewares' \<^verbatim>\<open>OnRequest\<close> in chain order, stopping
  at the first that returns a response or an error; the backend call when none did;
  then the middlewares' \<^verbatim>\<open>OnResponse\<close> and the observers' \<^verbatim>\<open>OnResponse\<close>, in chain
  order. A middleware after the intercepting one sees neither call (section 8, and
  \<^verbatim>\<open>TestMiddlewareInterceptsRequest\<close>). A chain is the list of its named entries in
  insertion order; an observer cannot change the outcome, so only its name is kept.
\<close>

type_synonym outcome = "http_response option \<times> go_error option"

type_synonym middleware_chain = "(string \<times> (request \<Rightarrow> outcome)) list"

datatype event =
    Observer_OnRequest string
  | Middleware_OnRequest string
  | Backend_Call
  | Middleware_OnResponse string
  | Observer_OnResponse string

text \<open>
  Modelled from the spec: the request phase of the middleware chain (section 4.3),
  which is not among the sources. It gives the names of the middlewares whose
  \<^verbatim>\<open>OnRequest\<close> ran, and the interception if any.
\<close>

fun chainOnRequest :: "middleware_chain \<Rightarrow> request \<Rightarrow> string list \<times> outcome option" where
  "chainOnRequest [] req = ([], None)"
| "chainOnRequest ((name, OnRequest) # rest) req =
     (case OnRequest req of
        (None, None) \<Rightarrow>
          (case chainOnRequest rest req of (invoked, out) \<Rightarrow> (name # invoked, out))
      | (response, err) \<Rightarrow> ([name], Some (response, err)))"

text \<open>
  Modelled from the spec: one attempt (section 4.4, steps 1, 3 and 4), which is not
  among the sources. It gives the calls made, in order, and the outcome.
\<close>

definition attempt ::
  "string list \<Rightarrow> middleware_chain \<Rightarrow> (request \<Rightarrow> outcome) \<Rightarrow> request
     \<Rightarrow> event list \<times> outcome" where
  "attempt observers middlewares backend req =
     (case chainOnRequest middlewares req of (invoked, intercepted) \<Rightarrow>
        (case (case intercepted of
                 Some out \<Rightarrow> ([], out)
               | None \<Rightarrow> ([Backend_Call], backend req)) of (called, out) \<Rightarrow>
           (map Observer_OnRequest observers @ map Middleware_OnRequest invoked @ called
              @ map Middleware_OnResponse invoked @ map Observer_OnResponse observers,
            out)))"

section \<open>Example values\<close>

text \<open>
  Values for the examples below: a response writer nothing was written to, the
  request of the tests, a formatter that reports the error's own status code, a reader
  that buffers the whole body, the response of the intercepting middleware of the
  tests, some rows of the table of \<^verbatim>\<open>http.StatusText\<close>, \<^verbatim>\<open>json.Marshal\<close> on nil, booleans
  and strings free of characters to escape, and an \<^verbatim>\<open>Error()\<close>.
\<close>

definition exWriter :: response_writer where
  "exWriter = \<lparr>wHeader = Map.empty, wInformational = [], wStatus = None, wBody = [],
               wMethod = ''GET'', wDrops = False\<rparr>"

definition exConn :: conn where
  "exConn = \<lparr>writer = exWriter,
             httpReq = \<lparr>rMethod = ''GET'', rURL = ''/'', rBody = ''hello!''\<rparr>,
             calls = []\<rparr>"

definition exFormatter :: "proxy_error \<Rightarrow> int \<times> bytes \<times> string" where
  "exFormatter e = (GetStatusCode e, ''{}'', ''application/json'')"

definition exProxy :: "(request \<Rightarrow> location option \<times> go_error option) \<Rightarrow> Proxy" where
  "exProxy rt = \<lparr>router = rt, options = \<lparr>ErrorFormatter = exFormatter\<rparr>, lastRequestId = 0\<rparr>"

definition exReader :: body_reader where
  "exReader bs = (Some bs, None, [])"

definition exForbidden :: http_response where
  "exForbidden = \<lparr>StatusCode = 403, Header = [''Content-Type'' \<mapsto> [''text/plain'']],
                  Body = Some ''Intercepted Request''\<rparr>"

definition exRequest :: request where
  "exRequest = \<lparr>HttpReq = \<lparr>rMethod = ''GET'', rURL = ''/'', rBody = ''hello!''\<rparr>, Id = 1,
                ReqBody = Some ''hello!''\<rparr>"

definition exStatusText :: "int \<Rightarrow> string" where
  "exStatusText code =
     (if code = 403 then ''Forbidden''
      else if code = 429 then ''Too Many Requests''
      else if code = 500 then ''Internal Server Error''
      else if code = 502 then ''Bad Gateway''
      else [])"

definition exMarshal :: "go_value \<Rightarrow> string + bytes" where
  "exMarshal v =
     (case v of
        VNil \<Rightarrow> Inr ''null''
      | VBool b \<Rightarrow> Inr (if b then ''true'' else ''false'')
      | VString s \<Rightarrow> Inr ([CHR 0x22] @ s @ [CHR 0x22])
      | _ \<Rightarrow> Inl ''json: unsupported value'')"

definition exError :: "go_error \<Rightarrow> string" where
  "exError e = (case e of OtherError text \<Rightarrow> text | _ \<Rightarrow> ''error'')"

section \<open>The response writer and the error path\<close>

text \<open>On a writer without a final head, a three-digit code that is not informational is written as the status of the final head.\<close>

lemma WriteHeader_final:
  assumes "wStatus rw = None" and "100 \<le> code" and "code \<le> 999" and "\<not> informational code"
  shows "WriteHeader rw code = Returns (rw\<lparr>wStatus := Some code\<rparr>)"
  using assms by (simp add: WriteHeader_def)

text \<open>Whether it returns or panics, \<^verbatim>\<open>replyError\<close> makes one call: it discards the request body.\<close>

lemma replyError_calls:
  "calls (snd (replyError p err c)) = calls c @ [Call_Discard]"
  by (simp add: replyError_def Let_def split: prod.split result.split)

section \<open>Routing failures\<close>

text \<open>
  C4. When the router returns a nil location and a nil error, \<^verbatim>\<open>proxyRequest\<close> returns
  the status-502 proxy error; the only call it makes is the one \<^verbatim>\<open>Route\<close> (no body is
  read, no round trip happens), the inbound body and the response writer are
  untouched. \<^verbatim>\<open>ServeHTTP\<close> then only replies: the request is not routed again.
\<close>

theorem proxyRequest_no_location:
  assumes "router p \<lparr>HttpReq = httpReq c, Id = lastRequestId p + 1, ReqBody = None\<rparr>
             = (None, None)"
  shows "proxyRequest BaseBodyReader p c =
           (Returns (Some (ProxyErr (FromStatus 502))),
            p\<lparr>lastRequestId := lastRequestId p + 1\<rparr>,
            c\<lparr>calls := calls c @ [Call_Route]\<rparr>)
       \<and> calls (snd (snd (ServeHTTP BaseBodyReader p c))) = calls c @ [Call_Route, Call_Discard]"
proof -
  have pr: "proxyRequest BaseBodyReader p c =
           (Returns (Some (ProxyErr (FromStatus 502))),
            p\<lparr>lastRequestId := lastRequestId p + 1\<rparr>,
            c\<lparr>calls := calls c @ [Call_Route]\<rparr>)"
    using assms by (simp add: proxyRequest_def StatusBadGateway_def)
  show ?thesis
    by (simp add: pr ServeHTTP_def replyError_calls case_prod_beta)
qed

theorem proxyRequest_no_location_witness:
  "proxyRequest exReader (exProxy (\<lambda>req. (None, None))) exConn =
     (Returns (Some (ProxyErr (FromStatus 502))),
      (exProxy (\<lambda>req. (None, None)))\<lparr>lastRequestId := 1\<rparr>,
      exConn\<lparr>calls := [Call_Route]\<rparr>)
   \<and> calls (snd (snd (ServeHTTP exReader (exProxy (\<lambda>req. (None, None))) exConn))) =
     [Call_Route, Call_Discard]"
  using proxyRequest_no_location [of "exProxy (\<lambda>req. (None, None))" exConn exReader]
  by (simp add: exProxy_def exConn_def)

section \<open>Failures of the body read\<close>

text \<open>
  C3, as stated, fails: what the client receives is the status the configured
  formatter returns. With a formatter that answers 500 to every error, a body read
  that fails with a \<^verbatim>\<open>MaxSizeReachedError\<close> makes \<^verbatim>\<open>proxyRequest\<close> return the status-413
  proxy error, and the client is answered 500.
\<close>

theorem proxyRequest_body_read_failure_formatter:
  "fst (proxyRequest exReader
     ((exProxy (\<lambda>req. (Some \<lparr>RoundTrip = (\<lambda>req. (None, Some (OtherError ''unreachable''))),
                               BodyReader = Some (\<lambda>bs. (None, Some MaxSizeReachedError, drop 4 bs))\<rparr>,
                         None)))
        \<lparr>options := \<lparr>ErrorFormatter = (\<lambda>e. (500, ''{}'', ''application/json''))\<rparr>\<rparr>)
     exConn) = Returns (Some (ProxyErr (FromStatus 413)))
   \<and> wStatus (writer (snd (snd (ServeHTTP exReader
     ((exProxy (\<lambda>req. (Some \<lparr>RoundTrip = (\<lambda>req. (None, Some (OtherError ''unreachable''))),
                               BodyReader = Some (\<lambda>bs. (None, Some MaxSizeReachedError, drop 4 bs))\<rparr>,
                         None)))
        \<lparr>options := \<lparr>ErrorFormatter = (\<lambda>e. (500, ''{}'', ''application/json''))\<rparr>\<rparr>)
     exConn)))) = Some 500"
  by (simp add: ServeHTTP_def proxyRequest_def replyError_def HeaderSet_def WriteHeader_def
      Write_def informational_def bodyAllowedForStatus_def StatusRequestEntityTooLarge_def
      exProxy_def exConn_def exWriter_def)

text \<open>
  C3, amended. When the router returns a location and reading the body returns an
  error, \<^verbatim>\<open>proxyRequest\<close> returns the proxy error of the status the kind of the error
  determines: 408 for a \<^verbatim>\<open>net.Error\<close> whose \<^verbatim>\<open>Timeout()\<close> is true, 413 for a
  \<^verbatim>\<open>MaxSizeReachedError\<close>, 400 for any other error. The calls made are the one \<^verbatim>\<open>Route\<close>
  and the one \<^verbatim>\<open>ReadBody\<close>: \<^verbatim>\<open>RoundTrip\<close> is not invoked, neither by \<^verbatim>\<open>proxyRequest\<close> nor
  by the rest of \<^verbatim>\<open>ServeHTTP\<close>. The client receives the status the configured formatter
  returns for that error: when that status is a three-digit number and not
  informational, and the writer has written no head yet, \<^verbatim>\<open>ServeHTTP\<close> returns having
  written it as the final head, and no informational head. So the client receives
  408, 413 or 400 when the formatter gives that error its own status code.
\<close>

theorem proxyRequest_body_read_failure:
  assumes route: "router p \<lparr>HttpReq = httpReq c, Id = lastRequestId p + 1, ReqBody = None\<rparr>
             = (Some location, None)"
    and read: "(case BodyReader location of Some customReader \<Rightarrow> customReader
                | None \<Rightarrow> BaseBodyReader) (rBody (httpReq c)) = (body, Some e, rest)"
    and code: "code = (case e of NetError True \<Rightarrow> 408 | MaxSizeReachedError \<Rightarrow> 413 | _ \<Rightarrow> 400)"
  shows "proxyRequest BaseBodyReader p c =
           (Returns (Some (ProxyErr (FromStatus code))),
            p\<lparr>lastRequestId := lastRequestId p + 1\<rparr>,
            c\<lparr>httpReq := (httpReq c)\<lparr>rBody := rest\<rparr>,
              calls := calls c @ [Call_Route, Call_ReadBody]\<rparr>)
       \<and> calls (snd (snd (ServeHTTP BaseBodyReader p c))) =
           calls c @ [Call_Route, Call_ReadBody, Call_Discard]
       \<and> (wStatus (writer c) = None
            \<and> 100 \<le> fst (ErrorFormatter (options p) (FromStatus code))
            \<and> fst (ErrorFormatter (options p) (FromStatus code)) \<le> 999
            \<and> \<not> informational (fst (ErrorFormatter (options p) (FromStatus code)))
          \<longrightarrow> fst (ServeHTTP BaseBodyReader p c) = Returns ()
            \<and> wStatus (writer (snd (snd (ServeHTTP BaseBodyReader p c)))) =
                Some (fst (ErrorFormatter (options p) (FromStatus code)))
            \<and> wInformational (writer (snd (snd (ServeHTTP BaseBodyReader p c)))) =
                wInformational (writer c))
       \<and> (wStatus (writer c) = None
            \<and> fst (ErrorFormatter (options p) (FromStatus code)) = code
          \<longrightarrow> fst (ServeHTTP BaseBodyReader p c) = Returns ()
            \<and> wStatus (writer (snd (snd (ServeHTTP BaseBodyReader p c)))) = Some code)"
proof -
  have range: "code = 400 \<or> code = 408 \<or> code = 413"
    using code by (auto split: go_error.splits bool.splits)
  have pr: "proxyRequest BaseBodyReader p c =
           (Returns (Some (ProxyErr (FromStatus code))),
            p\<lparr>lastRequestId := lastRequestId p + 1\<rparr>,
            c\<lparr>httpReq := (httpReq c)\<lparr>rBody := rest\<rparr>,
              calls := calls c @ [Call_Route, Call_ReadBody]\<rparr>)"
    using route read code
    by (simp add: proxyRequest_def StatusRequestTimeout_def StatusRequestEntityTooLarge_def
        StatusBadRequest_def split: go_error.split bool.split)
  have log: "calls (snd (snd (ServeHTTP BaseBodyReader p c))) =
           calls c @ [Call_Route, Call_ReadBody, Call_Discard]"
    by (simp add: pr ServeHTTP_def replyError_calls case_prod_beta)
  obtain statusCode bodyBytes contentType where
    F: "ErrorFormatter (options p) (FromStatus code) = (statusCode, bodyBytes, contentType)"
    by (cases "ErrorFormatter (options p) (FromStatus code)") auto
  have written: "fst (ServeHTTP BaseBodyReader p c) = Returns ()
            \<and> wStatus (writer (snd (snd (ServeHTTP BaseBodyReader p c)))) = Some statusCode
            \<and> wInformational (writer (snd (snd (ServeHTTP BaseBodyReader p c)))) =
                wInformational (writer c)"
    if fresh: "wStatus (writer c) = None" and digits: "100 \<le> statusCode" "statusCode \<le> 999"
      and closing: "\<not> informational statusCode"
  proof -
    have head: "WriteHeader (HeaderSet (writer c) ''Content-Type'' contentType) statusCode =
                Returns ((HeaderSet (writer c) ''Content-Type'' contentType)
                           \<lparr>wStatus := Some statusCode\<rparr>)"
      using fresh digits closing
      by (intro WriteHeader_final) (simp_all add: HeaderSet_def)
    have reply: "replyError (p\<lparr>lastRequestId := lastRequestId p + 1\<rparr>)
                   (ProxyErr (FromStatus code))
                   (c\<lparr>httpReq := (httpReq c)\<lparr>rBody := rest\<rparr>,
                      calls := calls c @ [Call_Route, Call_ReadBody]\<rparr>) =
                 (Returns (),
                  c\<lparr>httpReq := (httpReq c)\<lparr>rBody := []\<rparr>,
                    calls := calls c @ [Call_Route, Call_ReadBody, Call_Discard],
                    writer := Write ((HeaderSet (writer c) ''Content-Type'' contentType)
                                       \<lparr>wStatus := Some statusCode\<rparr>) bodyBytes\<rparr>)"
      by (simp add: replyError_def F head)
    show ?thesis
      by (simp add: pr ServeHTTP_def reply Write_def HeaderSet_def Let_def)
  qed
  have own: "100 \<le> statusCode \<and> statusCode \<le> 999 \<and> \<not> informational statusCode"
    if "statusCode = code"
    using that range by (auto simp add: informational_def)
  show ?thesis
    using pr log written own by (simp add: F)
qed

text \<open>
  An instance: the location's own reader gives up on the body after four bytes with
  a \<^verbatim>\<open>MaxSizeReachedError\<close>; the formatter reports the error's own status code; the
  client is answered 413 and no round trip is made.
\<close>

theorem proxyRequest_body_read_failure_witness:
  "fst (proxyRequest exReader
     (exProxy (\<lambda>req. (Some \<lparr>RoundTrip = (\<lambda>req. (None, Some (OtherError ''unreachable''))),
                               BodyReader = Some (\<lambda>bs. (None, Some MaxSizeReachedError, drop 4 bs))\<rparr>,
                         None)))
     exConn) = Returns (Some (ProxyErr (FromStatus 413)))
   \<and> calls (snd (snd (ServeHTTP exReader
     (exProxy (\<lambda>req. (Some \<lparr>RoundTrip = (\<lambda>req. (None, Some (OtherError ''unreachable''))),
                               BodyReader = Some (\<lambda>bs. (None, Some MaxSizeReachedError, drop 4 bs))\<rparr>,
                         None)))
     exConn))) = [Call_Route, Call_ReadBody, Call_Discard]
   \<and> wStatus (writer (snd (snd (ServeHTTP exReader
     (exProxy (\<lambda>req. (Some \<lparr>RoundTrip = (\<lambda>req. (None, Some (OtherError ''unreachable''))),
                               BodyReader = Some (\<lambda>bs. (None, Some MaxSizeReachedError, drop 4 bs))\<rparr>,
                         None)))
     exConn)))) = Some 413"
  using proxyRequest_body_read_failure [of
     "exProxy (\<lambda>req. (Some \<lparr>RoundTrip = (\<lambda>req. (None, Some (OtherError ''unreachable''))),
                               BodyReader = Some (\<lambda>bs. (None, Some MaxSizeReachedError, drop 4 bs))\<rparr>,
                         None))"
     exConn
     "\<lparr>RoundTrip = (\<lambda>req. (None, Some (OtherError ''unreachable''))),
       BodyReader = Some (\<lambda>bs. (None, Some MaxSizeReachedError, drop 4 bs))\<rparr>"
     exReader None MaxSizeReachedError "''o!''" 413]
  by (simp add: exProxy_def exConn_def exWriter_def exFormatter_def FromStatus_def)

text \<open>
  C10. When \<^verbatim>\<open>ReadBody\<close> returns a nil body together with a nil error, \<^verbatim>\<open>proxyRequest\<close>
  still fails the request, with the status-400 proxy error: the nil error is neither a
  timeout nor a \<^verbatim>\<open>MaxSizeReachedError\<close>. The calls made are the one \<^verbatim>\<open>Route\<close> and the one
  \<^verbatim>\<open>ReadBody\<close>, and \<^verbatim>\<open>ServeHTTP\<close> then only replies: \<^verbatim>\<open>RoundTrip\<close> is not invoked.
\<close>

theorem proxyRequest_nil_body_nil_error:
  assumes route: "router p \<lparr>HttpReq = httpReq c, Id = lastRequestId p + 1, ReqBody = None\<rparr>
             = (Some location, None)"
    and read: "(case BodyReader location of Some customReader \<Rightarrow> customReader
                | None \<Rightarrow> BaseBodyReader) (rBody (httpReq c)) = (None, None, rest)"
  shows "proxyRequest BaseBodyReader p c =
           (Returns (Some (ProxyErr (FromStatus 400))),
            p\<lparr>lastRequestId := lastRequestId p + 1\<rparr>,
            c\<lparr>httpReq := (httpReq c)\<lparr>rBody := rest\<rparr>,
              calls := calls c @ [Call_Route, Call_ReadBody]\<rparr>)
       \<and> calls (snd (snd (ServeHTTP BaseBodyReader p c))) =
           calls c @ [Call_Route, Call_ReadBody, Call_Discard]"
proof -
  have pr: "proxyRequest BaseBodyReader p c =
           (Returns (Some (ProxyErr (FromStatus 400))),
            p\<lparr>lastRequestId := lastRequestId p + 1\<rparr>,
            c\<lparr>httpReq := (httpReq c)\<lparr>rBody := rest\<rparr>,
              calls := calls c @ [Call_Route, Call_ReadBody]\<rparr>)"
    using route read by (simp add: proxyRequest_def StatusBadRequest_def)
  show ?thesis
    by (simp add: pr ServeHTTP_def replyError_calls case_prod_beta)
qed

theorem proxyRequest_nil_body_nil_error_witness:
  "proxyRequest (\<lambda>bs. (None, None, bs))
     (exProxy (\<lambda>req. (Some \<lparr>RoundTrip = (\<lambda>req. (None, Some (OtherError ''unreachable''))),
                               BodyReader = None\<rparr>, None)))
     exConn =
   (Returns (Some (ProxyErr (FromStatus 400))),
    (exProxy (\<lambda>req. (Some \<lparr>RoundTrip = (\<lambda>req. (None, Some (OtherError ''unreachable''))),
                               BodyReader = None\<rparr>, None)))\<lparr>lastRequestId := 1\<rparr>,
    exConn\<lparr>calls := [Call_Route, Call_ReadBody]\<rparr>)
   \<and> calls (snd (snd (ServeHTTP (\<lambda>bs. (None, None, bs))
     (exProxy (\<lambda>req. (Some \<lparr>RoundTrip = (\<lambda>req. (None, Some (OtherError ''unreachable''))),
                               BodyReader = None\<rparr>, None)))
     exConn))) = [Call_Route, Call_ReadBody, Call_Discard]"
  using proxyRequest_nil_body_nil_error [of
     "exProxy (\<lambda>req. (Some \<lparr>RoundTrip = (\<lambda>req. (None, Some (OtherError ''unreachable''))),
                               BodyReader = None\<rparr>, None))"
     exConn
     "\<lparr>RoundTrip = (\<lambda>req. (None, Some (OtherError ''unreachable''))), BodyReader = None\<rparr>"
     "(\<lambda>bs. (None, None, bs))" "''hello!''"]
  by (simp add: exProxy_def exConn_def)

section \<open>Writing the response\<close>


text \<open>
  Three more responses the claim does not hold of. An informational status (here
  150) is sent as an informational head, and the body then goes out under the final
  head 200. A status that admits no body (here 204) is written, and the body is not.
  A nil body makes the copy panic after the head is written.
\<close>

lemma proxyRequest_response_informational_status:
  "writer (snd (snd (proxyRequest exReader
     (exProxy (\<lambda>req. (Some \<lparr>RoundTrip = (\<lambda>req. (Some (exForbidden\<lparr>StatusCode := 150\<rparr>), None)),
                               BodyReader = None\<rparr>, None)))
     exConn))) =
   exWriter\<lparr>wHeader := [''Content-Type'' \<mapsto> [''text/plain'']], wInformational := [150],
            wStatus := Some 200, wBody := ''Intercepted Request''\<rparr>"
  by (simp add: proxyRequest_def CopyHeaders_def WriteHeader_def ioCopy_def Write_def
      informational_def bodyAllowedForStatus_def
      exProxy_def exConn_def exWriter_def exReader_def exForbidden_def)

lemma proxyRequest_response_status_without_body:
  "writer (snd (snd (proxyRequest exReader
     (exProxy (\<lambda>req. (Some \<lparr>RoundTrip = (\<lambda>req. (Some (exForbidden\<lparr>StatusCode := 204\<rparr>), None)),
                               BodyReader = None\<rparr>, None)))
     exConn))) =
   exWriter\<lparr>wHeader := [''Content-Type'' \<mapsto> [''text/plain'']], wStatus := Some 204\<rparr>"
  by (simp add: proxyRequest_def CopyHeaders_def WriteHeader_def ioCopy_def Write_def
      informational_def bodyAllowedForStatus_def
      exProxy_def exConn_def exWriter_def exReader_def exForbidden_def)

lemma proxyRequest_response_nil_body:
  "proxyRequest exReader
     (exProxy (\<lambda>req. (Some \<lparr>RoundTrip = (\<lambda>req. (Some (exForbidden\<lparr>Body := None\<rparr>), None)),
                               BodyReader = None\<rparr>, None)))
     exConn =
   (Panics NilPointerDereference,
    (exProxy (\<lambda>req. (Some \<lparr>RoundTrip = (\<lambda>req. (Some (exForbidden\<lparr>Body := None\<rparr>), None)),
                               BodyReader = None\<rparr>, None)))\<lparr>lastRequestId := 1\<rparr>,
    exConn\<lparr>writer := exWriter\<lparr>wHeader := [''Content-Type'' \<mapsto> [''text/plain'']],
                                wStatus := Some 403\<rparr>,
            calls := [Call_Route, Call_ReadBody, Call_RoundTrip, Call_CloseBody]\<rparr>)"
  by (simp add: proxyRequest_def CopyHeaders_def WriteHeader_def informational_def
      exProxy_def exConn_def exWriter_def exReader_def exForbidden_def)



section \<open>Replying with an error\<close>




section \<open>One response for every request\<close>

text \<open>
  C1. The claim is that \<^verbatim>\<open>ServeHTTP\<close> writes exactly one response whatever the round
  trip returns. When the round trip returns a nil response together with a nil error,
  \<^verbatim>\<open>proxyRequest\<close> returns that nil error and \<^verbatim>\<open>ServeHTTP\<close> takes it for success: the
  handler returns with the response writer as it found it, no head and no body
  written. (The body read in the same function treats a nil body with a nil error
  as a failure.)
\<close>

theorem ServeHTTP_nil_response_nil_error:
  "ServeHTTP exReader
     (exProxy (\<lambda>req. (Some \<lparr>RoundTrip = (\<lambda>req. (None, None)), BodyReader = None\<rparr>, None)))
     exConn =
   (Returns (),
    (exProxy (\<lambda>req. (Some \<lparr>RoundTrip = (\<lambda>req. (None, None)), BodyReader = None\<rparr>, None)))
      \<lparr>lastRequestId := 1\<rparr>,
    exConn\<lparr>calls := [Call_Route, Call_ReadBody, Call_RoundTrip, Call_CloseBody]\<rparr>)"
  by (simp add: ServeHTTP_def proxyRequest_def exProxy_def exConn_def exReader_def)

theorem ServeHTTP_nil_response_nil_error_witness:
  "writer (snd (snd (ServeHTTP exReader
     (exProxy (\<lambda>req. (Some \<lparr>RoundTrip = (\<lambda>req. (None, None)), BodyReader = None\<rparr>, None)))
     exConn))) =
   \<lparr>wHeader = Map.empty, wInformational = [], wStatus = None, wBody = [], wMethod = ''GET'',
    wDrops = False\<rparr>"
  using ServeHTTP_nil_response_nil_error
  by (simp add: exConn_def exWriter_def)

section \<open>From a mapping to a typed error\<close>

text \<open>An integer in the range of \<^verbatim>\<open>int\<close> passes the check of \<^verbatim>\<open>code\<close>; what passes is an integer.\<close>

lemma float64_integral:
  assumes "- (2 ^ 63) \<le> n" and "n < 2 ^ 63"
  shows "int_of_float64 (Fin (of_int n)) = n"
    and "float64_of_int (int_of_float64 (Fin (of_int n))) = Fin (of_int n)"
  using assms by (simp_all add: int_of_float64_def float64_of_int_def)

lemma float64_check_integral:
  "codeF = float64_of_int (int_of_float64 codeF) \<Longrightarrow> \<exists>n. codeF = Fin (of_int n)"
  by (auto simp add: float64_of_int_def)

text \<open>\<^verbatim>\<open>errorFromDict\<close> reads the keys \<^verbatim>\<open>code\<close>, \<^verbatim>\<open>message\<close> and \<^verbatim>\<open>body\<close> and no other.\<close>

lemma errorFromDict_reads:
  assumes c: "inp ''code'' = inp' ''code''"
    and m: "inp ''message'' = inp' ''message''"
    and b: "inp ''body'' = inp' ''body''"
  shows "errorFromDict StatusText Marshal inp = errorFromDict StatusText Marshal inp'"
  unfolding errorFromDict_def c m b by (rule refl)

text \<open>
  C7, as stated, fails: a mapping with an integral \<^verbatim>\<open>code\<close> and a serializable
  \<^verbatim>\<open>body\<close> whose \<^verbatim>\<open>message\<close> is present and is not a string (here the number 42) is
  refused.
\<close>

theorem errorFromDict_message_not_string:
  "errorFromDict exStatusText exMarshal
     [''code'' \<mapsto> VFloat (Fin 403), ''message'' \<mapsto> VFloat (Fin 42),
      ''body'' \<mapsto> VString ''nope'']
   = Inl ''Parameter 'message' should be a string''"
  by (simp add: errorFromDict_def int_of_float64_def float64_of_int_def)

text \<open>
  C7, amended. For every mapping whose \<^verbatim>\<open>code\<close> is a \<^verbatim>\<open>float64\<close> holding an integer in
  the range of \<^verbatim>\<open>int\<close>, whose \<^verbatim>\<open>message\<close> is absent or a string, and whose \<^verbatim>\<open>body\<close> is
  present and serialized by \<^verbatim>\<open>json.Marshal\<close>, \<^verbatim>\<open>errorFromDict\<close> succeeds: the status code
  is that integer, the status is the \<^verbatim>\<open>message\<close> when present and \<^verbatim>\<open>http.StatusText\<close> of
  the code otherwise, the body is the serialization of \<^verbatim>\<open>body\<close>.
\<close>

theorem errorFromDict_well_formed:
  assumes code: "inp ''code'' = Some (VFloat (Fin (of_int n)))"
    and range: "- (2 ^ 63) \<le> n" "n < 2 ^ 63"
    and message: "inp ''message'' = None \<and> status = StatusText n
                  \<or> inp ''message'' = Some (VString status)"
    and body: "inp ''body'' = Some bodyI"
    and marshal: "Marshal bodyI = Inr bodyBytes"
  shows "errorFromDict StatusText Marshal inp = Inr (HttpError n status bodyBytes)"
  using assms float64_integral [OF range]
  by (auto simp add: errorFromDict_def)

text \<open>
  Two instances: the mapping \<^verbatim>\<open>{code: 403, message: "Forbidden", body: "nope"}\<close>, and
  the same without its \<^verbatim>\<open>message\<close>.
\<close>

theorem errorFromDict_well_formed_witness:
  "errorFromDict exStatusText exMarshal
     [''code'' \<mapsto> VFloat (Fin 403), ''message'' \<mapsto> VString ''Forbidden'',
      ''body'' \<mapsto> VString ''nope'']
   = Inr (HttpError 403 ''Forbidden'' [CHR 0x22, CHR ''n'', CHR ''o'', CHR ''p'', CHR ''e'', CHR 0x22])
   \<and> errorFromDict exStatusText exMarshal
     [''code'' \<mapsto> VFloat (Fin 403), ''body'' \<mapsto> VString ''nope'']
   = Inr (HttpError 403 ''Forbidden'' [CHR 0x22, CHR ''n'', CHR ''o'', CHR ''p'', CHR ''e'', CHR 0x22])"
  using errorFromDict_well_formed [of
      "[''code'' \<mapsto> VFloat (Fin 403), ''message'' \<mapsto> VString ''Forbidden'',
        ''body'' \<mapsto> VString ''nope'']" 403 "''Forbidden''" exStatusText "VString ''nope''"
      exMarshal "[CHR 0x22, CHR ''n'', CHR ''o'', CHR ''p'', CHR ''e'', CHR 0x22]"]
    errorFromDict_well_formed [of
      "[''code'' \<mapsto> VFloat (Fin 403), ''body'' \<mapsto> VString ''nope'']" 403 "''Forbidden''"
      exStatusText "VString ''nope''"
      exMarshal "[CHR 0x22, CHR ''n'', CHR ''o'', CHR ''p'', CHR ''e'', CHR 0x22]"]
  by (simp add: exMarshal_def exStatusText_def)

text \<open>
  C8. A mapping that misses \<^verbatim>\<open>code\<close>, or whose \<^verbatim>\<open>code\<close> is not a \<^verbatim>\<open>float64\<close> holding an
  integer, or whose \<^verbatim>\<open>message\<close> is present and is not a string, or that misses \<^verbatim>\<open>body\<close>,
  or whose \<^verbatim>\<open>body\<close> \<^verbatim>\<open>json.Marshal\<close> refuses, makes \<^verbatim>\<open>errorFromDict\<close> return an error:
  no typed error is built from defaults.
\<close>

theorem errorFromDict_malformed:
  assumes "inp ''code'' = None
         \<or> (\<forall>n. inp ''code'' \<noteq> Some (VFloat (Fin (of_int n))))
         \<or> (\<exists>v. inp ''message'' = Some v \<and> (\<forall>s. v \<noteq> VString s))
         \<or> inp ''body'' = None
         \<or> (\<exists>v e. inp ''body'' = Some v \<and> Marshal v = Inl e)"
  shows "\<exists>e. errorFromDict StatusText Marshal inp = Inl e"
  using assms
  by (auto simp add: errorFromDict_def split: option.splits go_value.splits sum.splits
      dest: float64_check_integral)

text \<open>
  Instances: a mapping without \<^verbatim>\<open>code\<close>, one whose \<^verbatim>\<open>code\<close> is a string, and one
  whose \<^verbatim>\<open>body\<close> is a value \<^verbatim>\<open>json.Marshal\<close> refuses.
\<close>

theorem errorFromDict_malformed_witness:
  "(\<exists>e. errorFromDict exStatusText exMarshal
          [''message'' \<mapsto> VString ''Forbidden'', ''body'' \<mapsto> VString ''nope''] = Inl e)
   \<and> (\<exists>e. errorFromDict exStatusText exMarshal
          [''code'' \<mapsto> VString ''403'', ''body'' \<mapsto> VString ''nope''] = Inl e)
   \<and> (\<exists>e. errorFromDict exStatusText exMarshal
          [''code'' \<mapsto> VFloat (Fin 403), ''body'' \<mapsto> VOther ''func()''] = Inl e)"
  using errorFromDict_malformed [of
      "[''message'' \<mapsto> VString ''Forbidden'', ''body'' \<mapsto> VString ''nope'']"
      exMarshal exStatusText]
    errorFromDict_malformed [of
      "[''code'' \<mapsto> VString ''403'', ''body'' \<mapsto> VString ''nope'']" exMarshal exStatusText]
    errorFromDict_malformed [of
      "[''code'' \<mapsto> VFloat (Fin 403), ''body'' \<mapsto> VOther ''func()'']" exMarshal exStatusText]
  by (simp add: exMarshal_def)

section \<open>Round trips between typed errors and mappings\<close>

text \<open>
  C9, as stated, fails in both directions. The mapping \<^verbatim>\<open>errorToJs\<close> builds from a
  \<^verbatim>\<open>RetryError\<close> of 5 seconds is refused by \<^verbatim>\<open>errorFromJs\<close>; the mapping of a
  status-mapped error of status 403 carries the code 500; and two mappings that
  differ in \<^verbatim>\<open>retry-seconds\<close> are translated to the same typed error.
\<close>

theorem errorToJs_errorFromJs_counterexample:
  "errorFromJs exStatusText exMarshal (VMap (errorToJs exStatusText exError (RetryError 5))) =
     Inl ''Parameter 'code' should be integer''
   \<and> errorToJs exStatusText exError (ProxyErr (FromStatus 403)) ''code'' = Some (VInt 500)
   \<and> errorFromDict exStatusText exMarshal
       [''type'' \<mapsto> VString ''retry'', ''retry-seconds'' \<mapsto> VFloat (Fin 5),
        ''code'' \<mapsto> VFloat (Fin 429), ''body'' \<mapsto> VString ''wait'']
     = errorFromDict exStatusText exMarshal
       [''type'' \<mapsto> VString ''retry'', ''retry-seconds'' \<mapsto> VFloat (Fin 7),
        ''code'' \<mapsto> VFloat (Fin 429), ''body'' \<mapsto> VString ''wait'']"
  by (simp add: errorToJs_def errorFromJs_def errorFromDict_def StatusInternalServerError_def)

text \<open>
  C9, amended. \<^verbatim>\<open>errorToJs\<close> maps a \<^verbatim>\<open>RetryError\<close> to the mapping of the five keys
  \<^verbatim>\<open>type\<close> (\<^verbatim>\<open>retry\<close>), \<^verbatim>\<open>retry-seconds\<close> (its seconds), \<^verbatim>\<open>code\<close> (429), \<^verbatim>\<open>message\<close> and \<^verbatim>\<open>body\<close>
  (both \<^verbatim>\<open>Too Many Requests\<close>), and any other error to the mapping of the four keys
  \<^verbatim>\<open>type\<close> (\<^verbatim>\<open>internal\<close>), \<^verbatim>\<open>code\<close> (500), \<^verbatim>\<open>body\<close> (\<^verbatim>\<open>http.StatusText\<close> of 500) and \<^verbatim>\<open>message\<close>
  (its \<^verbatim>\<open>Error()\<close> text), so that nothing else of the error is kept; both codes are Go
  \<^verbatim>\<open>int\<close>s, so \<^verbatim>\<open>errorFromJs\<close> refuses the mapping as \<^verbatim>\<open>errorToJs\<close> built it.
  \<^verbatim>\<open>errorFromDict\<close> does not read \<^verbatim>\<open>type\<close> and \<^verbatim>\<open>retry-seconds\<close>: whatever they hold, the
  result is the same.
\<close>

theorem errorToJs_errorFromJs_lossy:
  "dom (errorToJs StatusText Error e) =
     (case e of
        RetryError s \<Rightarrow> {''type'', ''retry-seconds'', ''code'', ''message'', ''body''}
      | _ \<Rightarrow> {''type'', ''code'', ''body'', ''message''})
   \<and> errorToJs StatusText Error e ''type'' =
     Some (VString (case e of RetryError s \<Rightarrow> ''retry'' | _ \<Rightarrow> ''internal''))
   \<and> errorToJs StatusText Error e ''code'' =
     Some (VInt (case e of RetryError s \<Rightarrow> 429 | _ \<Rightarrow> 500))
   \<and> errorToJs StatusText Error e ''retry-seconds'' =
     (case e of RetryError s \<Rightarrow> Some (VInt s) | _ \<Rightarrow> None)
   \<and> errorToJs StatusText Error e ''message'' =
     Some (VString (case e of RetryError s \<Rightarrow> ''Too Many Requests'' | _ \<Rightarrow> Error e))
   \<and> errorToJs StatusText Error e ''body'' =
     Some (VString (case e of RetryError s \<Rightarrow> ''Too Many Requests'' | _ \<Rightarrow> StatusText 500))
   \<and> errorFromJs StatusText Marshal (VMap (errorToJs StatusText Error e)) =
     Inl ''Parameter 'code' should be integer''
   \<and> errorFromDict StatusText Marshal (inp(''type'' := t, ''retry-seconds'' := rs)) =
     errorFromDict StatusText Marshal inp"
proof -
  have keys: "dom (errorToJs StatusText Error e) =
     (case e of
        RetryError s \<Rightarrow> {''type'', ''retry-seconds'', ''code'', ''message'', ''body''}
      | _ \<Rightarrow> {''type'', ''code'', ''body'', ''message''})"
    by (cases e) (auto simp add: errorToJs_def)
  have fwd: "errorToJs StatusText Error e ''code'' =
       Some (VInt (case e of RetryError s \<Rightarrow> 429 | _ \<Rightarrow> 500))"
    "errorToJs StatusText Error e ''type'' =
       Some (VString (case e of RetryError s \<Rightarrow> ''retry'' | _ \<Rightarrow> ''internal''))"
    "errorToJs StatusText Error e ''retry-seconds'' =
       (case e of RetryError s \<Rightarrow> Some (VInt s) | _ \<Rightarrow> None)"
    "errorToJs StatusText Error e ''message'' =
       Some (VString (case e of RetryError s \<Rightarrow> ''Too Many Requests'' | _ \<Rightarrow> Error e))"
    "errorToJs StatusText Error e ''body'' =
       Some (VString (case e of RetryError s \<Rightarrow> ''Too Many Requests'' | _ \<Rightarrow> StatusText 500))"
    by (cases e; simp add: errorToJs_def StatusInternalServerError_def)+
  have refused: "errorFromJs StatusText Marshal (VMap (errorToJs StatusText Error e)) =
       Inl ''Parameter 'code' should be integer''"
    by (simp add: errorFromJs_def errorFromDict_def fwd(1))
  have ignored: "errorFromDict StatusText Marshal (inp(''type'' := t, ''retry-seconds'' := rs)) =
       errorFromDict StatusText Marshal inp"
    by (rule errorFromDict_reads) simp_all
  show ?thesis using keys fwd refused ignored by simp
qed

section \<open>An intercepted attempt\<close>

lemma chainOnRequest_intercept:
  assumes "\<forall>(name, h) \<in> set pre. h req = (None, None)"
    and "OnRequest req = (response, err)"
    and "response \<noteq> None \<or> err \<noteq> None"
  shows "chainOnRequest (pre @ (name, OnRequest) # post) req =
           (map fst pre @ [name], Some (response, err))"
  using assms
proof (induction pre)
  case Nil
  then show ?case by (auto split: option.splits)
next
  case (Cons a pre)
  then show ?case by (cases a) (auto split: option.splits)
qed

lemma count_list_map_inj:
  "inj f \<Longrightarrow> count_list (map f xs) (f x) = count_list xs x"
  by (induction xs) (auto simp add: inj_def)

lemma count_list_distinct:
  "distinct xs \<Longrightarrow> x \<in> set xs \<Longrightarrow> count_list xs x = 1"
  by (induction xs) (auto simp add: count_list_0_iff)

text \<open>
  C2. In a chain of uniquely named middlewares, let one return a response or an error
  from \<^verbatim>\<open>OnRequest\<close>, all before it having returned neither. Then in that attempt no
  middleware after it sees \<^verbatim>\<open>OnRequest\<close> (nor \<^verbatim>\<open>OnResponse\<close>), the backend is not
  called, the outcome of the attempt is what the middleware returned, the
  middleware's \<^verbatim>\<open>OnRequest\<close> and \<^verbatim>\<open>OnResponse\<close> each run once, and every observer
  receives one \<^verbatim>\<open>OnRequest\<close> and one \<^verbatim>\<open>OnResponse\<close>.
\<close>

theorem attempt_intercepted:
  assumes names: "distinct (map fst (pre @ (name, OnRequest) # post))"
    and observers: "distinct observers"
    and before: "\<forall>(n, h) \<in> set pre. h req = (None, None)"
    and intercept: "OnRequest req = (response, err)" "response \<noteq> None \<or> err \<noteq> None"
  shows "case attempt observers (pre @ (name, OnRequest) # post) backend req of
           (trace, out) \<Rightarrow>
             (\<forall>(n, h) \<in> set post. Middleware_OnRequest n \<notin> set trace
                                  \<and> Middleware_OnResponse n \<notin> set trace)
           \<and> Backend_Call \<notin> set trace
           \<and> out = (response, err)
           \<and> count_list trace (Middleware_OnRequest name) = 1
           \<and> count_list trace (Middleware_OnResponse name) = 1
           \<and> (\<forall>ob \<in> set observers. count_list trace (Observer_OnRequest ob) = 1
                                  \<and> count_list trace (Observer_OnResponse ob) = 1)"
proof -
  let ?ran = "map fst pre @ [name]"
  let ?trace = "map Observer_OnRequest observers @ map Middleware_OnRequest ?ran
                  @ map Middleware_OnResponse ?ran @ map Observer_OnResponse observers"
  have run: "attempt observers (pre @ (name, OnRequest) # post) backend req =
               (?trace, (response, err))"
    using chainOnRequest_intercept [of pre req OnRequest response err name post]
      before intercept
    by (simp add: attempt_def)
  have ran: "distinct ?ran" "name \<in> set ?ran"
    using names by auto
  have later: "\<forall>(n, h) \<in> set post. n \<notin> set ?ran"
    using names by (force simp add: image_iff disjoint_iff)
  have inj: "inj Middleware_OnRequest" "inj Middleware_OnResponse"
    "inj Observer_OnRequest" "inj Observer_OnResponse"
    by (simp_all add: inj_def)
  have c1: "count_list ?trace (Middleware_OnRequest name) = 1"
  proof -
    have "count_list ?trace (Middleware_OnRequest name) =
            count_list (map Middleware_OnRequest ?ran) (Middleware_OnRequest name)"
      by (auto simp add: count_list_0_iff)
    then show ?thesis
      using count_list_map_inj [OF inj(1), of ?ran name] count_list_distinct [OF ran] by simp
  qed
  have c2: "count_list ?trace (Middleware_OnResponse name) = 1"
  proof -
    have "count_list ?trace (Middleware_OnResponse name) =
            count_list (map Middleware_OnResponse ?ran) (Middleware_OnResponse name)"
      by (auto simp add: count_list_0_iff)
    then show ?thesis
      using count_list_map_inj [OF inj(2), of ?ran name] count_list_distinct [OF ran] by simp
  qed
  have c3: "count_list ?trace (Observer_OnRequest ob) = 1
            \<and> count_list ?trace (Observer_OnResponse ob) = 1" if "ob \<in> set observers" for ob
  proof -
    have "count_list ?trace (Observer_OnRequest ob) =
            count_list (map Observer_OnRequest observers) (Observer_OnRequest ob)"
      and "count_list ?trace (Observer_OnResponse ob) =
            count_list (map Observer_OnResponse observers) (Observer_OnResponse ob)"
      by (auto simp add: count_list_0_iff)
    then show ?thesis
      using count_list_map_inj [OF inj(3), of observers ob]
        count_list_map_inj [OF inj(4), of observers ob]
        count_list_distinct [OF observers that] by simp
  qed
  have c4: "\<forall>(n, h) \<in> set post. Middleware_OnRequest n \<notin> set ?trace
                                  \<and> Middleware_OnResponse n \<notin> set ?trace"
    using later by auto
  have c5: "Backend_Call \<notin> set ?trace" by auto
  show ?thesis
    unfolding run using c1 c2 c3 c4 c5 by simp
qed

text \<open>
  The instance of \<^verbatim>\<open>TestMiddlewareInterceptsRequest\<close>: the middleware \<^verbatim>\<open>auth\<close> answers
  403, \<^verbatim>\<open>cb\<close> is appended after it, \<^verbatim>\<open>ob\<close> observes.
\<close>

lemma attempt_test_trace:
  "attempt [''ob'']
     [(''auth'', \<lambda>req. (Some exForbidden, None)), (''cb'', \<lambda>req. (None, None))]
     (\<lambda>req. (None, Some (OtherError ''unreachable''))) exRequest =
   ([Observer_OnRequest ''ob'', Middleware_OnRequest ''auth'', Middleware_OnResponse ''auth'',
     Observer_OnResponse ''ob''],
    (Some exForbidden, None))"
  by (simp add: attempt_def)

theorem attempt_intercepted_witness:
  "Middleware_OnRequest ''cb'' \<notin> set (fst (attempt [''ob'']
     [(''auth'', \<lambda>req. (Some exForbidden, None)), (''cb'', \<lambda>req. (None, None))]
     (\<lambda>req. (None, Some (OtherError ''unreachable''))) exRequest))
   \<and> Backend_Call \<notin> set (fst (attempt [''ob'']
     [(''auth'', \<lambda>req. (Some exForbidden, None)), (''cb'', \<lambda>req. (None, None))]
     (\<lambda>req. (None, Some (OtherError ''unreachable''))) exRequest))
   \<and> snd (attempt [''ob'']
     [(''auth'', \<lambda>req. (Some exForbidden, None)), (''cb'', \<lambda>req. (None, None))]
     (\<lambda>req. (None, Some (OtherError ''unreachable''))) exRequest) = (Some exForbidden, None)
   \<and> count_list (fst (attempt [''ob'']
     [(''auth'', \<lambda>req. (Some exForbidden, None)), (''cb'', \<lambda>req. (None, None))]
     (\<lambda>req. (None, Some (OtherError ''unreachable''))) exRequest))
       (Middleware_OnResponse ''auth'') = 1
   \<and> count_list (fst (attempt [''ob'']
     [(''auth'', \<lambda>req. (Some exForbidden, None)), (''cb'', \<lambda>req. (None, None))]
     (\<lambda>req. (None, Some (OtherError ''unreachable''))) exRequest))
       (Observer_OnRequest ''ob'') = 1
   \<and> count_list (fst (attempt [''ob'']
     [(''auth'', \<lambda>req. (Some exForbidden, None)), (''cb'', \<lambda>req. (None, None))]
     (\<lambda>req. (None, Some (OtherError ''unreachable''))) exRequest))
       (Observer_OnResponse ''ob'') = 1"
  using attempt_intercepted [of "[]" "''auth''" "\<lambda>req. (Some exForbidden, None)"
      "[(''cb'', \<lambda>req. (None, None))]" "[''ob'']" exRequest "Some exForbidden" None
      "\<lambda>req. (None, Some (OtherError ''unreachable''))"]
  by (simp add: case_prod_beta)

end
